theory Spec2Isabelle
  imports
    Main
    "HOL-Library.AList"
    "HOL-Library.Char_ord"
    "HOL-Library.List_Lexorder"
begin

section \<open>fabricator-assemble: a shallow embedding of src/index.js\<close>

text \<open>
  The module assembles a style guide from materials (template fragments), views, data files
  and docs. This theory embeds the functions of \<^verbatim>\<open>src/index.js\<close> that carry the
  collection, namespacing, context and output-path logic, and states the properties of the
  specification over them.

  Conventions of the embedding.
  \<^item> A JavaScript string is a \<^typ>\<open>string\<close>; one \<^typ>\<open>char\<close> stands for one code unit in
    the range 0 to 255.
  \<^item> A plain JavaScript object is an association list in insertion order with distinct keys,
    read by \<^const>\<open>map_of\<close> and written by \<^const>\<open>AList.update\<close> (an existing key keeps its
    place, a new key is appended). Only own properties are modelled: property names that every
    object inherits from \<^verbatim>\<open>Object.prototype\<close> (\<^verbatim>\<open>constructor\<close>, \<^verbatim>\<open>toString\<close>,
    \<^verbatim>\<open>__proto__\<close> and the like) and array-index-like keys, which JavaScript enumerates
    first, are outside the model.
  \<^item> The file system, globbing, front-matter extraction, Markdown rendering, HTML formatting
    and the template engine are external: their results are parameters of the functions below.
  \<^item> Paths are POSIX paths (\<^verbatim>\<open>path.sep\<close> is the slash).
\<close>

subsection \<open>Values and objects\<close>

datatype jsval =
    JUndefined
  | JNull
  | JBool bool
  | JNum int
  | JStr string
  | JArr "jsval list"
  | JObj "(string \<times> jsval) list"

type_synonym jsobj = "(string \<times> jsval) list"

text \<open>JavaScript truthiness, as the conditions \<^verbatim>\<open>if (x)\<close> and \<^verbatim>\<open>x || y\<close> use it.\<close>

fun truthy :: "jsval \<Rightarrow> bool" where
  "truthy JUndefined = False"
| "truthy JNull = False"
| "truthy (JBool b) = b"
| "truthy (JNum n) = (n \<noteq> 0)"
| "truthy (JStr s) = (s \<noteq> [])"
| "truthy (JArr _) = True"
| "truthy (JObj _) = True"

text \<open>
  \<^verbatim>\<open>_.assign(target, source)\<close> copies the own enumerable properties of the source onto the
  target, one key at a time, in the source's order; \<^verbatim>\<open>_.assign(target, s1, ..., sn)\<close> does
  so for each source from left to right. \<^verbatim>\<open>_.omit(obj, key)\<close> copies the object without
  the key.
\<close>

definition assign1 :: "('k \<times> 'v) list \<Rightarrow> ('k \<times> 'v) list \<Rightarrow> ('k \<times> 'v) list" where
  "assign1 target source = fold (\<lambda>(k, v) t. AList.update k v t) source target"

definition assign :: "('k \<times> 'v) list \<Rightarrow> ('k \<times> 'v) list list \<Rightarrow> ('k \<times> 'v) list" where
  "assign target sources = fold (\<lambda>s t. assign1 t s) sources target"

text \<open>\<^verbatim>\<open>obj[k]\<close>, which is \<^verbatim>\<open>undefined\<close> for a key the object does not have.\<close>

definition get_prop :: "jsobj \<Rightarrow> string \<Rightarrow> jsval" where
  "get_prop obj k = (case map_of obj k of Some v \<Rightarrow> v | None \<Rightarrow> JUndefined)"

definition omit :: "('k \<times> 'v) list \<Rightarrow> 'k \<Rightarrow> ('k \<times> 'v) list" where
  "omit obj k = filter (\<lambda>p. fst p \<noteq> k) obj"

subsection \<open>The assembly store and the options\<close>

text \<open>
  The entries of \<^verbatim>\<open>assembly.materials\<close>: a material is the object literal
  \<^verbatim>\<open>{name, notes, data}\<close>, a collection (or sub-collection) the literal \<^verbatim>\<open>{name, items}\<close>.
\<close>

datatype material_entry =
    Material string string jsobj
  | Collection string "(string \<times> material_entry) list"

type_synonym materials_tree = "(string \<times> material_entry) list"

record view_item =
  vi_name :: string
  vi_data :: jsobj

record view_collection =
  vc_name :: string
  vc_items :: "(string \<times> view_item) list"

type_synonym views_tree = "(string \<times> view_collection) list"

record doc_entry =
  d_name :: string
  d_content :: string

type_synonym docs_tree = "(string \<times> doc_entry) list"

record assembly =
  a_layouts :: "(string \<times> string) list"
  a_data :: jsobj
  a_materials :: materials_tree
  a_materialData :: "(string \<times> jsobj) list"
  a_views :: views_tree
  a_docs :: docs_tree

text \<open>What the user's \<^verbatim>\<open>onError\<close> callback does when called: it returns, or it throws.\<close>

datatype callback_result = Returns | Throws

record options =
  o_layout :: string
  o_materials :: "string list"
  o_buildData :: jsobj
  o_keys_materials :: string
  o_keys_views :: string
  o_keys_docs :: string
  o_dest :: string
  o_extension :: string
  o_destMap :: "(string \<times> string) list"
  o_onError :: "(jsobj \<Rightarrow> callback_result) option"
  o_logErrors :: bool

definition defaults :: options where
  "defaults = \<lparr>
     o_layout = ''default'',
     o_materials = [''src/materials/**/*''],
     o_buildData = [],
     o_keys_materials = ''materials'',
     o_keys_views = ''views'',
     o_keys_docs = ''docs'',
     o_dest = ''dist'',
     o_extension = ''.html'',
     o_destMap = [],
     o_onError = None,
     o_logErrors = False \<rparr>"

subsection \<open>handleError\<close>








subsection \<open>buildContext\<close>

text \<open>
  A context value is a data value or one of the three trees of the assembly store, which
  \<^verbatim>\<open>buildContext\<close> puts under the configured keys.
\<close>

datatype ctxval =
    Val jsval
  | MaterialsTree materials_tree
  | ViewsTree views_tree
  | DocsTree docs_tree

type_synonym ctx = "(string \<times> ctxval) list"

definition lift_obj :: "jsobj \<Rightarrow> ctx" where
  "lift_obj obj = map (\<lambda>(k, v). (k, Val v)) obj"

text \<open>
  \<^verbatim>\<open>hash\<close> is absent (\<^verbatim>\<open>undefined\<close>) when \<^verbatim>\<open>assemble\<close> calls \<^verbatim>\<open>buildContext\<close> with one
  argument; \<^verbatim>\<open>_.assign\<close> skips an undefined source.
\<close>

definition buildContext :: "options \<Rightarrow> assembly \<Rightarrow> jsobj \<Rightarrow> jsobj option \<Rightarrow> ctx" where
  "buildContext opts asm data hash =
     (let materials = [(o_keys_materials opts, MaterialsTree (a_materials asm))];
          views = [(o_keys_views opts, ViewsTree (a_views asm))];
          docs = [(o_keys_docs opts, DocsTree (a_docs asm))]
      in assign []
           ([lift_obj data,
             lift_obj (a_data asm),
             map (\<lambda>(k, d). (k, Val (JObj d))) (a_materialData asm),
             lift_obj (o_buildData opts),
             materials, views, docs]
            @ (case hash of None \<Rightarrow> [] | Some h \<Rightarrow> [lift_obj h])))"

subsection \<open>Strings and regular expressions\<close>

text \<open>
  The character classes of the regular expressions in the source: \<^verbatim>\<open>\s\<close> (the white space
  of the range modelled), \<^verbatim>\<open>\d\<close>, \<^verbatim>\<open>\w\<close> and \<^verbatim>\<open>[0-9a-z]\<close>.
\<close>

definition is_space :: "char \<Rightarrow> bool" where
  "is_space c = (c \<in> set [CHR 0x09, CHR 0x0A, CHR 0x0B, CHR 0x0C, CHR 0x0D, CHR 0x20, CHR 0xA0])"

definition is_digit :: "char \<Rightarrow> bool" where
  "is_digit c = (c \<in> set ''0123456789'')"

definition is_lower :: "char \<Rightarrow> bool" where
  "is_lower c = (c \<in> set ''abcdefghijklmnopqrstuvwxyz'')"

definition is_upper :: "char \<Rightarrow> bool" where
  "is_upper c = (c \<in> set ''ABCDEFGHIJKLMNOPQRSTUVWXYZ'')"

definition is_lower_alnum :: "char \<Rightarrow> bool" where
  "is_lower_alnum c = (is_digit c \<or> is_lower c)"

definition is_word :: "char \<Rightarrow> bool" where
  "is_word c = (is_digit c \<or> is_lower c \<or> is_upper c \<or> c = CHR ''_'')"

text \<open>\<^verbatim>\<open>toUpperCase\<close> and \<^verbatim>\<open>toLowerCase\<close>, on the ASCII letters.\<close>

definition to_upper :: "char \<Rightarrow> char" where
  "to_upper c =
     (case map_of (zip ''abcdefghijklmnopqrstuvwxyz'' ''ABCDEFGHIJKLMNOPQRSTUVWXYZ'') c of
        Some u \<Rightarrow> u | None \<Rightarrow> c)"

definition to_lower :: "char \<Rightarrow> char" where
  "to_lower c =
     (case map_of (zip ''ABCDEFGHIJKLMNOPQRSTUVWXYZ'' ''abcdefghijklmnopqrstuvwxyz'') c of
        Some l \<Rightarrow> l | None \<Rightarrow> c)"

text \<open>\<^verbatim>\<open>str.split(c)\<close> for a one-character separator, and \<^verbatim>\<open>parts.join(sep)\<close>.\<close>

fun split_on :: "char \<Rightarrow> string \<Rightarrow> string list" where
  "split_on c [] = [[]]"
| "split_on c (x # xs) =
     (if x = c then [] # split_on c xs
      else (case split_on c xs of [] \<Rightarrow> [[x]] | y # ys \<Rightarrow> (x # y) # ys))"

fun join_with :: "string \<Rightarrow> string list \<Rightarrow> string" where
  "join_with sep [] = []"
| "join_with sep [x] = x"
| "join_with sep (x # y # ys) = x @ sep @ join_with sep (y # ys)"

text \<open>
  The replacement text of \<^verbatim>\<open>String.prototype.replace\<close>, for a pattern none of whose
  capture groups the text can refer to: a dollar sign followed by a dollar sign is a dollar
  sign, followed by an ampersand the matched text, followed by a backquote the text before the
  match, followed by a quote the text after the match; any other dollar sign stands for itself.
\<close>

fun expand :: "string \<Rightarrow> string \<Rightarrow> string \<Rightarrow> string \<Rightarrow> string" where
  "expand matched pre post [] = []"
| "expand matched pre post [c] = [c]"
| "expand matched pre post (c # d # r) =
     (if c = CHR ''$'' then
        (if d = CHR ''$'' then CHR ''$'' # expand matched pre post r
         else if d = CHR ''&'' then matched @ expand matched pre post r
         else if d = CHR 0x60 then pre @ expand matched pre post r
         else if d = CHR 0x27 then post @ expand matched pre post r
         else c # expand matched pre post (d # r))
      else c # expand matched pre post (d # r))"

subsection \<open>Node's path module (POSIX)\<close>

text \<open>
  \<^verbatim>\<open>normalizeString\<close>: the segments of the path from left to right; empty segments and
  \<^verbatim>\<open>.\<close> are dropped, \<^verbatim>\<open>..\<close> removes the segment before it, if there is one that is not
  itself \<^verbatim>\<open>..\<close>, and is kept otherwise only when the path is relative.
\<close>

fun normalize_segments :: "bool \<Rightarrow> string list \<Rightarrow> string list \<Rightarrow> string list" where
  "normalize_segments allowAboveRoot [] res = res"
| "normalize_segments allowAboveRoot (s # ss) res =
     (if s = [] \<or> s = ''.'' then normalize_segments allowAboveRoot ss res
      else if s = ''..'' then
        (if res \<noteq> [] \<and> last res \<noteq> ''..'' then normalize_segments allowAboveRoot ss (butlast res)
         else if allowAboveRoot then normalize_segments allowAboveRoot ss (res @ [''..''])
         else normalize_segments allowAboveRoot ss res)
      else normalize_segments allowAboveRoot ss (res @ [s]))"

definition path_normalize :: "string \<Rightarrow> string" where
  "path_normalize p =
     (if p = [] then ''.''
      else
        let isAbsolute = (hd p = CHR ''/'');
            trailingSeparator = (last p = CHR ''/'');
            q = join_with ''/'' (normalize_segments (\<not> isAbsolute) (split_on CHR ''/'' p) [])
        in if q = [] then (if isAbsolute then ''/'' else if trailingSeparator then ''./'' else ''.'')
           else (if isAbsolute then ''/'' else []) @ q @ (if trailingSeparator then ''/'' else []))"

definition path_join :: "string list \<Rightarrow> string" where
  "path_join args =
     (let joined = join_with ''/'' (filter (\<lambda>a. a \<noteq> []) args)
      in if joined = [] then ''.'' else path_normalize joined)"

text \<open>
  \<^verbatim>\<open>path.dirname\<close> looks, from the right and down to index 1, for the slash before the last
  segment (trailing slashes skipped) and cuts there.
\<close>

definition path_dirname :: "string \<Rightarrow> string" where
  "path_dirname p =
     (if p = [] then ''.''
      else
        let hasRoot = (hd p = CHR ''/'');
            r = dropWhile (\<lambda>c. c \<noteq> CHR ''/'') (dropWhile (\<lambda>c. c = CHR ''/'') (rev (tl p)));
            endIdx = length r
        in if r = [] then (if hasRoot then ''/'' else ''.'')
           else if hasRoot \<and> endIdx = 1 then ''//''
           else take endIdx p)"

definition path_basename :: "string \<Rightarrow> string" where
  "path_basename p = rev (takeWhile (\<lambda>c. c \<noteq> CHR ''/'') (dropWhile (\<lambda>c. c = CHR ''/'') (rev p)))"

text \<open>
  \<^verbatim>\<open>path.extname\<close>: from the last dot of the last segment to its end; empty when the segment
  has no dot, when its only dot is its first character, and for the segment \<^verbatim>\<open>..\<close>.
\<close>

definition path_extname :: "string \<Rightarrow> string" where
  "path_extname p =
     (let b = path_basename p;
          tail = takeWhile (\<lambda>c. c \<noteq> CHR ''.'') (rev b)
      in if CHR ''.'' \<notin> set b then []
         else if length tail + 1 = length b then []
         else if b = ''..'' then []
         else drop (length b - (length tail + 1)) b)"

text \<open>
  \<^verbatim>\<open>path.basename(p, ext)\<close>: the last segment, without \<^verbatim>\<open>ext\<close> when the segment ends with
  it and is longer than it. (The source only passes \<^verbatim>\<open>path.extname(p)\<close>, which is empty or a
  proper suffix of the segment.)
\<close>

definition path_basename_ext :: "string \<Rightarrow> string \<Rightarrow> string" where
  "path_basename_ext p ext =
     (let b = path_basename p
      in if ext = [] \<or> length p < length ext then b
         else if ext = p then []
         else if length ext < length b \<and> drop (length b - length ext) b = ext
           then take (length b - length ext) b
         else b)"

subsection \<open>getName, toTitleCase, wrapPage\<close>

text \<open>
  \<^verbatim>\<open>getName\<close>: the base name without its extension, white space replaced by dashes; unless
  \<^verbatim>\<open>preserveNumbers\<close>, the leading run of digits, bars, dots and dashes
  (\<^verbatim>\<open>/^[0-9|\.\-]+/\<close>) is removed.
\<close>

definition getName :: "string \<Rightarrow> bool \<Rightarrow> string" where
  "getName filePath preserveNumbers =
     (let name = map (\<lambda>c. if is_space c then CHR ''-'' else c)
                   (path_basename_ext filePath (path_extname filePath))
      in if preserveNumbers then name
         else dropWhile (\<lambda>c. is_digit c \<or> c = CHR ''|'' \<or> c = CHR ''.'' \<or> c = CHR ''-'') name)"

text \<open>
  \<^verbatim>\<open>toTitleCase\<close>: dashes and underscores become spaces; then every match of
  \<^verbatim>\<open>/\w\S*/g\<close> (a word character and the non-space characters after it) has its first
  character in upper case and the rest in lower case. The scan is written with a flag that
  tells whether it is inside a match.
\<close>

fun title_words :: "bool \<Rightarrow> string \<Rightarrow> string" where
  "title_words inWord [] = []"
| "title_words inWord (c # r) =
     (if inWord then
        (if is_space c then c # title_words False r else to_lower c # title_words True r)
      else
        (if is_word c then to_upper c # title_words True r else c # title_words False r))"

definition toTitleCase :: "string \<Rightarrow> string" where
  "toTitleCase str =
     title_words False (map (\<lambda>c. if c = CHR ''-'' \<or> c = CHR ''_'' then CHR '' '' else c) str)"

text \<open>
  \<^verbatim>\<open>wrapPage\<close>: the first match of \<^verbatim>\<open>/\{\%\s?body\s?\%\}/\<close> in the layout is replaced by
  the page (as a replacement text).
\<close>

definition opt_space :: "string \<Rightarrow> string" where
  "opt_space s = (case s of [] \<Rightarrow> [] | c # r \<Rightarrow> if is_space c then r else s)"

definition strip_prefix :: "string \<Rightarrow> string \<Rightarrow> string option" where
  "strip_prefix pre s = (if take (length pre) s = pre then Some (drop (length pre) s) else None)"

text \<open>What is left of the string after a match of the body tag at its start, if there is one.\<close>

definition body_tag :: "string \<Rightarrow> string option" where
  "body_tag s =
     (case strip_prefix ''{%'' s of
        None \<Rightarrow> None
      | Some s1 \<Rightarrow>
          (case strip_prefix ''body'' (opt_space s1) of
             None \<Rightarrow> None
           | Some s2 \<Rightarrow> strip_prefix ''%}'' (opt_space s2)))"

fun wrap_at :: "string \<Rightarrow> string \<Rightarrow> string \<Rightarrow> string" where
  "wrap_at page pre [] = pre"
| "wrap_at page pre (c # r) =
     (case body_tag (c # r) of
        Some rest \<Rightarrow>
          pre @ expand (take (length (c # r) - length rest) (c # r)) pre rest page @ rest
      | None \<Rightarrow> wrap_at page (pre @ [c]) r)"

definition wrapPage :: "string \<Rightarrow> string \<Rightarrow> string" where
  "wrapPage page layout = wrap_at page [] layout"

subsection \<open>Views: collections, parseViews\<close>

text \<open>The result of \<^verbatim>\<open>getMatter\<close> for a file: the front-matter data and the body.\<close>

record file_matter =
  fm_data :: jsobj
  fm_content :: string

text \<open>
  \<^verbatim>\<open>path.normalize(path.dirname(file)).split(path.sep).pop()\<close>: the name of the directory the
  file is in.
\<close>

definition dir_name :: "string \<Rightarrow> string" where
  "dir_name file = last (split_on CHR ''/'' (path_normalize (path_dirname file)))"

text \<open>
  The collection of a view, as \<^verbatim>\<open>parseViews\<close> and \<^verbatim>\<open>assemble\<close> both compute it:
  \<^verbatim>\<open>(dirname !== options.keys.views) ? dirname : ''\<close>.
\<close>

definition collection_of :: "options \<Rightarrow> string \<Rightarrow> string" where
  "collection_of opts file =
     (let dirname = dir_name file in if dirname \<noteq> o_keys_views opts then dirname else [])"



subsection \<open>assemble\<close>

text \<open>
  \<^verbatim>\<open>filePath.replace(/\.[0-9a-z]+$/, options.extension)\<close>: the first position where a dot
  is followed, up to the end of the string, by one or more characters of \<^verbatim>\<open>[0-9a-z]\<close>.
\<close>

definition ext_match :: "string \<Rightarrow> bool" where
  "ext_match s = (case s of [] \<Rightarrow> False | c # r \<Rightarrow> c = CHR ''.'' \<and> r \<noteq> [] \<and> list_all is_lower_alnum r)"

fun replace_extension_at :: "string \<Rightarrow> string \<Rightarrow> string \<Rightarrow> string" where
  "replace_extension_at repl pre [] = pre"
| "replace_extension_at repl pre (c # r) =
     (if ext_match (c # r) then pre @ expand (c # r) pre [] repl
      else replace_extension_at repl (pre @ [c]) r)"

definition replace_extension :: "string \<Rightarrow> string \<Rightarrow> string" where
  "replace_extension repl filePath = replace_extension_at repl [] filePath"

datatype error = TypeError | TemplateError | Unmodelled

text \<open>
  The path a view is written to, in the order of the statements of \<^verbatim>\<open>assemble\<close>: the default
  path; the front matter's \<^verbatim>\<open>dest\<close>, when truthy (\<^verbatim>\<open>path.normalize\<close> throws a TypeError for
  a value that is not a string); the entry of \<^verbatim>\<open>destMap\<close> for the collection, when truthy;
  then the extension.
\<close>

definition outputPath :: "options \<Rightarrow> string \<Rightarrow> jsobj \<Rightarrow> error + string" where
  "outputPath opts file data =
     (let collection = collection_of opts file;
          filePath0 = path_normalize (path_join [o_dest opts, collection, path_basename file]);
          dest = get_prop data ''dest''
      in case (if truthy dest
               then (case dest of JStr d \<Rightarrow> Inr (path_normalize d) | _ \<Rightarrow> Inl TypeError)
               else Inr filePath0) of
           Inl e \<Rightarrow> Inl e
         | Inr filePath1 \<Rightarrow>
             let filePath2 =
                   (case map_of (o_destMap opts) collection of
                      Some m \<Rightarrow>
                        if m \<noteq> [] then path_normalize (path_join [m, path_basename file])
                        else filePath1
                    | None \<Rightarrow> filePath1)
             in Inr (replace_extension (o_extension opts) filePath2))"

text \<open>
  The page data of a view after \<^verbatim>\<open>if (collection) { pageMatter.data.baseurl = '..'; }\<close>, and
  the context \<^verbatim>\<open>assemble\<close> builds from them.
\<close>

definition page_data :: "options \<Rightarrow> string \<Rightarrow> jsobj \<Rightarrow> jsobj" where
  "page_data opts file data =
     (if collection_of opts file \<noteq> [] then AList.update ''baseurl'' (JStr ''..'') data else data)"

definition page_context :: "options \<Rightarrow> assembly \<Rightarrow> string \<Rightarrow> jsobj \<Rightarrow> ctx" where
  "page_context opts asm file data = buildContext opts asm (page_data opts file data) None"

text \<open>
  One round of the loop of \<^verbatim>\<open>assemble\<close>: the files written, and the error thrown if any.
  \<^verbatim>\<open>render source context\<close> stands for compiling the source with Handlebars and running
  the template on the context; it may throw. A layout that does not exist makes
  \<^verbatim>\<open>wrapPage\<close> throw a TypeError. A truthy \<^verbatim>\<open>layout\<close> that is not a string would be
  converted to a property key; the model does not follow that conversion.
\<close>

definition assemble_file ::
  "options \<Rightarrow> assembly \<Rightarrow> (string \<Rightarrow> ctx \<Rightarrow> error + string) \<Rightarrow> string \<times> file_matter
   \<Rightarrow> (string \<times> string) list \<times> error option" where
  "assemble_file opts asm render fm =
     (let file = fst fm;
          pageContent = fm_content (snd fm);
          data = page_data opts file (fm_data (snd fm));
          layoutKey = (if truthy (get_prop data ''layout'') then get_prop data ''layout''
                       else JStr (o_layout opts))
      in case layoutKey of
           JStr key \<Rightarrow>
             (case map_of (a_layouts asm) key of
                None \<Rightarrow> ([], Some TypeError)
              | Some layout \<Rightarrow>
                  let source = wrapPage pageContent layout;
                      context = page_context opts asm file (fm_data (snd fm))
                  in (case outputPath opts file data of
                        Inl e \<Rightarrow> ([], Some e)
                      | Inr filePath \<Rightarrow>
                          (case render source context of
                             Inl e \<Rightarrow> ([], Some e)
                           | Inr out \<Rightarrow>
                               let copy = get_prop data ''dest-copy''
                               in if truthy copy then
                                    (case copy of
                                       JStr c \<Rightarrow> ([(filePath, out), (path_normalize c, out)], None)
                                     | _ \<Rightarrow> ([(filePath, out)], Some TypeError))
                                  else ([(filePath, out)], None))))
         | _ \<Rightarrow> ([], Some Unmodelled))"


text \<open>
  The reading of the specification, for comparison: a view lies directly under the views root
  when the directory it is in is the views root.
\<close>

definition directly_under_root :: "string \<Rightarrow> string \<Rightarrow> bool" where
  "directly_under_root viewsRoot file = (path_normalize (path_dirname file) = path_normalize viewsRoot)"

subsection \<open>The material helper\<close>

text \<open>
  A value of \<^verbatim>\<open>Handlebars.partials\<close>: the source text that \<^verbatim>\<open>registerPartial\<close> stored, or
  a compiled template function.
\<close>

datatype template = Source string | Compiled "ctx \<Rightarrow> error + string"

type_synonym partials = "(string \<times> template) list"






subsection \<open>Namespacing the fields of a material\<close>

text \<open>
  For a field \<^verbatim>\<open>key\<close> the source builds the pattern
  \<^verbatim>\<open>(\{\{[#/]?)(\s?\<close>key\<^verbatim>\<open>+?\s?)(\}\})\<close> with \<^verbatim>\<open>new RegExp\<close>, the key being spliced in as
  pattern text. The model covers the keys made of word characters and dashes: they stand for
  themselves in a pattern, and the quantifier \<^verbatim>\<open>+?\<close> then applies to the last character of
  the key. For any other key the pattern depends on the meaning of its characters in a regular
  expression (or is not a pattern at all), which the model does not follow.
\<close>

definition plain_key :: "string \<Rightarrow> bool" where
  "plain_key key = (key \<noteq> [] \<and> list_all (\<lambda>c. is_word c \<or> c = CHR ''-'') key)"

definition opt_sigil :: "string \<Rightarrow> string \<times> string" where
  "opt_sigil s =
     (case s of [] \<Rightarrow> ([], s) | c # r \<Rightarrow> if c = CHR ''#'' \<or> c = CHR ''/'' then ([c], r) else ([], s))"

definition opt_space_split :: "string \<Rightarrow> string \<times> string" where
  "opt_space_split s = (case s of [] \<Rightarrow> ([], s) | c # r \<Rightarrow> if is_space c then ([c], r) else ([], s))"

text \<open>
  A match of the pattern at the start of the string: the groups \<^verbatim>\<open>p1\<close> and \<^verbatim>\<open>p2\<close> and
  what follows the match. After the key, the lazy \<^verbatim>\<open>+?\<close> has to take every further copy of
  the key's last character before \<^verbatim>\<open>\s?\}\}\<close> can match.
\<close>

definition placeholder_match :: "string \<Rightarrow> string \<Rightarrow> (string \<times> string \<times> string) option" where
  "placeholder_match key s =
     (case strip_prefix ''{{'' s of
        None \<Rightarrow> None
      | Some s1 \<Rightarrow>
          (case opt_sigil s1 of
             (sigil, s2) \<Rightarrow>
               (case opt_space_split s2 of
                  (w1, s3) \<Rightarrow>
                    (case strip_prefix key s3 of
                       None \<Rightarrow> None
                     | Some s4 \<Rightarrow>
                         (case opt_space_split (dropWhile (\<lambda>c. c = last key) s4) of
                            (w2, s6) \<Rightarrow>
                              (case strip_prefix ''}}'' s6 of
                                 None \<Rightarrow> None
                               | Some rest \<Rightarrow>
                                   Some (''{{'' @ sigil,
                                         w1 @ key @ takeWhile (\<lambda>c. c = last key) s4 @ w2,
                                         rest)))))))"

text \<open>
  \<^verbatim>\<open>content.replace(regex, function (match, p1, p2, p3) {...})\<close> with the flag \<^verbatim>\<open>g\<close>: every
  match, from left to right, is replaced by \<^verbatim>\<open>p1\<close>, the namespaced id, a dot, \<^verbatim>\<open>p2\<close> without
  its white space, and \<^verbatim>\<open>p3\<close>.
\<close>

function rewrite_key :: "string \<Rightarrow> string \<Rightarrow> string \<Rightarrow> string" where
  "rewrite_key nsid key [] = []"
| "rewrite_key nsid key (c # r) =
     (case placeholder_match key (c # r) of
        Some (p1, p2, rest) \<Rightarrow>
          p1 @ nsid @ ''.'' @ filter (\<lambda>x. \<not> is_space x) p2 @ ''}}'' @ rewrite_key nsid key rest
      | None \<Rightarrow> c # rewrite_key nsid key r)"
  by pat_completeness auto
termination
proof (relation "measure (\<lambda>(nsid, key, body). length body)")
  show "wf (measure (\<lambda>(nsid, key, body). length body))" by simp
next
  fix nsid key :: string and c r x2 p1 y p2 rest
  assume "placeholder_match key (c # r) = Some x2" "(p1, y) = x2" "(p2, rest) = y"
  then have m: "placeholder_match key (c # r) = Some (p1, p2, rest)" by simp
  have sp: "\<And>pre a b. strip_prefix pre a = Some b \<Longrightarrow> length b \<le> length a"
    by (auto simp: strip_prefix_def split: if_splits)
  have sp2: "\<And>a b. strip_prefix ''{{'' a = Some b \<Longrightarrow> length b < length a"
    by (case_tac a) (auto simp: strip_prefix_def split: if_splits)
  have os: "\<And>a g b. opt_sigil a = (g, b) \<Longrightarrow> length b \<le> length a"
    by (auto simp: opt_sigil_def split: list.splits if_splits)
  have ow: "\<And>a w b. opt_space_split a = (w, b) \<Longrightarrow> length b \<le> length a"
    by (auto simp: opt_space_split_def split: list.splits if_splits)
  from m obtain s1 sigil s2 w1 s3 s4 w2 s6 where
    a: "strip_prefix ''{{'' (c # r) = Some s1" and b: "opt_sigil s1 = (sigil, s2)"
    and c: "opt_space_split s2 = (w1, s3)" and d: "strip_prefix key s3 = Some s4"
    and e: "opt_space_split (dropWhile (\<lambda>c. c = last key) s4) = (w2, s6)"
    and f: "strip_prefix ''}}'' s6 = Some rest"
    by (auto simp: placeholder_match_def split: option.splits prod.splits)
  have "length rest \<le> length s6" using sp [OF f] .
  also have "\<dots> \<le> length (dropWhile (\<lambda>c. c = last key) s4)" using ow [OF e] .
  also have "\<dots> \<le> length s4" by (rule length_dropWhile_le)
  also have "\<dots> \<le> length s3" using sp [OF d] .
  also have "\<dots> \<le> length s2" using ow [OF c] .
  also have "\<dots> \<le> length s1" using os [OF b] .
  also have "\<dots> < length (c # r)" using sp2 [OF a] .
  finally show "((nsid, key, rest), nsid, key, c # r) \<in> measure (\<lambda>(nsid, key, body). length body)"
    by simp
next
  fix nsid key :: string and c r
  show "((nsid, key, r), nsid, key, c # r) \<in> measure (\<lambda>(nsid, key, body). length body)" by simp
qed

text \<open>\<^verbatim>\<open>id.replace(/\./g, '-')\<close>.\<close>

definition namespaced_id :: "string \<Rightarrow> string" where
  "namespaced_id ident = map (\<lambda>c. if c = CHR ''.'' then CHR ''-'' else c) ident"

text \<open>
  \<^verbatim>\<open>_.forEach(localData, ...)\<close>: one pass per field, in the order of the fields, each on the
  content the pass before left.
\<close>

definition namespace_content :: "string \<Rightarrow> jsobj \<Rightarrow> string \<Rightarrow> error + string" where
  "namespace_content ident localData content =
     (if list_all plain_key (map fst localData)
      then Inr (fold (\<lambda>key body. rewrite_key (namespaced_id ident) key body) (map fst localData) content)
      else Inl Unmodelled)"

subsection \<open>parseMaterials\<close>

text \<open>
  \<^verbatim>\<open>content.replace(/^(\s*(\r?\n|\r))+|(\s*(\r?\n|\r))+$/g, '')\<close>: the leading white space up
  to its last line terminator goes, and so does the trailing white space when the text ends
  with a line terminator.
\<close>

definition is_line_end :: "char \<Rightarrow> bool" where
  "is_line_end c = (c = CHR 0x0A \<or> c = CHR 0x0D)"

definition trim_blank_lines :: "string \<Rightarrow> string" where
  "trim_blank_lines content =
     (let lead = takeWhile is_space content;
          n = length lead - length (takeWhile (\<lambda>c. \<not> is_line_end c) (rev lead));
          s = drop n content
      in if s \<noteq> [] \<and> is_line_end (last s) then rev (dropWhile is_space (rev s)) else s)"

text \<open>
  Modelled from the spec: \<^verbatim>\<open>sortObj\<close> is the function of the package sort-object, whose code
  is not part of the sources. The specification describes the call \<^verbatim>\<open>sortObj(obj, 'order')\<close> so:
  the entries with an explicit \<^verbatim>\<open>order\<close> attribute come first, by ascending order; the
  entries without one follow, sorted by key, stably. \<^verbatim>\<open>order_of\<close> reads the attribute of an
  entry.
\<close>

definition sortObj :: "('v \<Rightarrow> int option) \<Rightarrow> (string \<times> 'v) list \<Rightarrow> (string \<times> 'v) list" where
  "sortObj order_of obj =
     sort_key (\<lambda>p. case order_of (snd p) of Some n \<Rightarrow> n | None \<Rightarrow> 0)
       (filter (\<lambda>p. order_of (snd p) \<noteq> None) obj)
     @ sort_key fst (filter (\<lambda>p. order_of (snd p) = None) obj)"

text \<open>
  The \<^verbatim>\<open>order\<close> attribute of an entry of the materials tree. The entries are the object
  literals \<^verbatim>\<open>{name, notes, data}\<close> and \<^verbatim>\<open>{name, items}\<close> of \<^verbatim>\<open>parseMaterials\<close>; neither
  has a property \<^verbatim>\<open>order\<close> (an \<^verbatim>\<open>order\<close> of the front matter is a field of \<^verbatim>\<open>data\<close>).
\<close>

fun entry_order :: "material_entry \<Rightarrow> int option" where
  "entry_order (Material name notes data) = None"
| "entry_order (Collection name items) = None"

record material_state =
  ms_materials :: materials_tree
  ms_materialData :: "(string \<times> jsobj) list"
  ms_partials :: partials

fun fold_err :: "('s \<Rightarrow> 'a \<Rightarrow> error + 's) \<Rightarrow> 'a list \<Rightarrow> 's \<Rightarrow> error + 's" where
  "fold_err f [] s = Inr s"
| "fold_err f (x # xs) s = (case f s x of Inl e \<Rightarrow> Inl e | Inr s' \<Rightarrow> fold_err f xs s')"

definition dir_segments :: "string \<Rightarrow> string list" where
  "dir_segments file = split_on CHR ''/'' (path_normalize (path_dirname file))"

text \<open>\<^verbatim>\<open>parts.slice(-2, -1)[0]\<close>: the element before the last, undefined when there is none.\<close>

definition second_last :: "'a list \<Rightarrow> 'a option" where
  "second_last xs = (if 2 \<le> length xs then Some (xs ! (length xs - 2)) else None)"

text \<open>
  The names in \<^verbatim>\<open>dirs\<close>: \<^verbatim>\<open>globDirs\<close> stands for \<^verbatim>\<open>globby.sync\<close> on the directory patterns
  (each the dirname of a materials pattern followed by \<^verbatim>\<open>/*/\<close>).
\<close>

definition material_dirs :: "(string list \<Rightarrow> string list) \<Rightarrow> options \<Rightarrow> string option list" where
  "material_dirs globDirs opts =
     map (\<lambda>dir. second_last (split_on CHR ''/'' (path_normalize dir)))
       (globDirs (map (\<lambda>pattern. path_dirname pattern @ ''/*/'') (o_materials opts)))"

text \<open>
  The classification in the first loop (the stubs), where the parent's name goes through
  \<^verbatim>\<open>getName\<close>, and in the second loop (the materials), where it does not.
  \<^verbatim>\<open>getName\<close> throws a TypeError when the directory has no parent segment.
\<close>

definition stub_isSubCollection :: "string option list \<Rightarrow> string \<Rightarrow> error + bool" where
  "stub_isSubCollection dirs file =
     (case second_last (dir_segments file) of
        None \<Rightarrow> Inl TypeError
      | Some p \<Rightarrow> Inr (Some (getName p True) \<in> set dirs))"

definition isSubCollection :: "string option list \<Rightarrow> string \<Rightarrow> bool" where
  "isSubCollection dirs file = (second_last (dir_segments file) \<in> set dirs)"

text \<open>
  The id of a material, under which it is registered as a partial: its name without the
  numeric prefix, after the name of its sub-collection and a dot when it is in one.
\<close>

definition material_id :: "string option list \<Rightarrow> string \<Rightarrow> string" where
  "material_id dirs file =
     (if isSubCollection dirs file
      then getName (getName (last (dir_segments file)) True) False @ ''.'' @ getName file False
      else getName file False)"

definition stub_entry :: "string \<Rightarrow> material_entry" where
  "stub_entry dirName = Collection (toTitleCase (getName dirName False)) []"

text \<open>\<^verbatim>\<open>obj[k] = obj[k] || stub\<close>: an entry that exists is an object, hence truthy, and stays.\<close>

definition stub_missing :: "string \<Rightarrow> materials_tree \<Rightarrow> materials_tree" where
  "stub_missing k obj = (case map_of obj k of Some _ \<Rightarrow> obj | None \<Rightarrow> AList.update k (stub_entry k) obj)"

definition stub_step :: "string option list \<Rightarrow> materials_tree \<Rightarrow> string \<Rightarrow> error + materials_tree" where
  "stub_step dirs materials file =
     (case stub_isSubCollection dirs file of
        Inl e \<Rightarrow> Inl e
      | Inr isSub \<Rightarrow>
          (case second_last (dir_segments file) of
             None \<Rightarrow> Inl TypeError
           | Some p \<Rightarrow>
               let parent = getName p True;
                   collection = getName (last (dir_segments file)) True;
                   materialBase = (if isSub then parent else collection);
                   materials1 = stub_missing materialBase materials
               in if isSub then
                    (case map_of materials1 parent of
                       Some (Collection n items) \<Rightarrow>
                         Inr (AList.update parent (Collection n (stub_missing collection items)) materials1)
                     | _ \<Rightarrow> Inl TypeError)
                  else Inr materials1))"

text \<open>
  One round of the second loop. \<^verbatim>\<open>md_render\<close> stands for \<^verbatim>\<open>md.render\<close>. Reading
  \<^verbatim>\<open>.items\<close> of a collection that the first loop did not stub throws a TypeError.
\<close>

definition populate_step ::
  "(string \<Rightarrow> string) \<Rightarrow> string option list \<Rightarrow> material_state \<Rightarrow> string \<times> file_matter
   \<Rightarrow> error + material_state" where
  "populate_step md_render dirs st fm =
     (let file = fst fm;
          fileMatter = snd fm;
          collection = getName (last (dir_segments file)) True;
          parent = second_last (dir_segments file);
          isSub = isSubCollection dirs file;
          id = material_id dirs file;
          key = (if isSub then collection @ ''.'' @ getName file True else getName file True);
          localData = omit (fm_data fileMatter) ''notes'';
          content = trim_blank_lines (fm_content fileMatter);
          notes = get_prop (fm_data fileMatter) ''notes'';
          materials = ms_materials st
      in case (if truthy notes
               then (case notes of JStr n \<Rightarrow> Inr (md_render n) | _ \<Rightarrow> Inl TypeError)
               else Inr []) of
           Inl e \<Rightarrow> Inl e
         | Inr notesHtml \<Rightarrow>
             (case (if \<not> isSub then
                      (case map_of materials collection of
                         Some (Collection n items) \<Rightarrow>
                           Inr (AList.update collection
                                  (Collection n
                                     (AList.update key (Material (toTitleCase id) notesHtml localData) items))
                                  materials)
                       | _ \<Rightarrow> Inl TypeError)
                    else
                      (case parent of
                         None \<Rightarrow> Inl TypeError
                       | Some p \<Rightarrow>
                           (case map_of materials p of
                              Some (Collection n items) \<Rightarrow>
                                (case map_of items collection of
                                   Some (Collection n2 items2) \<Rightarrow>
                                     Inr (AList.update p
                                            (Collection n
                                               (AList.update collection
                                                  (Collection n2
                                                     (AList.update key
                                                        (Material (toTitleCase (split_on CHR ''.'' id ! 1))
                                                           notesHtml localData)
                                                        items2))
                                                  items))
                                            materials)
                                 | _ \<Rightarrow> Inl TypeError)
                            | _ \<Rightarrow> Inl TypeError))) of
                Inl e \<Rightarrow> Inl e
              | Inr materials' \<Rightarrow>
                  (case namespace_content id localData content of
                     Inl e \<Rightarrow> Inl e
                   | Inr content' \<Rightarrow>
                       Inr \<lparr>ms_materials = materials',
                            ms_materialData = AList.update (namespaced_id id) localData (ms_materialData st),
                            ms_partials = AList.update id (Source content') (ms_partials st)\<rparr>)))"

definition sort_items :: "material_entry \<Rightarrow> material_entry" where
  "sort_items e = (case e of Collection n items \<Rightarrow> Collection n (sortObj entry_order items) | m \<Rightarrow> m)"

text \<open>
  \<^verbatim>\<open>parseMaterials\<close>: the materials tree is reset, the stubs are made, the materials are
  filed and registered, and the tree and the items of each of its collections are sorted.
  The material data and the partials of earlier runs stay.
\<close>

definition parseMaterials ::
  "options \<Rightarrow> (string list \<Rightarrow> string list) \<Rightarrow> (string \<Rightarrow> string) \<Rightarrow> material_state
   \<Rightarrow> (string \<times> file_matter) list \<Rightarrow> error + material_state" where
  "parseMaterials opts globDirs md_render st0 files =
     (let dirs = material_dirs globDirs opts
      in case fold_err (stub_step dirs) (map fst files) [] of
           Inl e \<Rightarrow> Inl e
         | Inr stubs \<Rightarrow>
             (case fold_err (populate_step md_render dirs) files (st0\<lparr>ms_materials := stubs\<rparr>) of
                Inl e \<Rightarrow> Inl e
              | Inr st \<Rightarrow>
                  Inr (st\<lparr>ms_materials :=
                         map (\<lambda>p. (fst p, sort_items (snd p))) (sortObj entry_order (ms_materials st))\<rparr>)))"

subsection \<open>Reading results\<close>

text \<open>The error a result stands for, the source text registered under a name, and the keys of
  the items of a collection of the materials tree, in their order.\<close>

definition thrown :: "error + 'a \<Rightarrow> error option" where
  "thrown r = (case r of Inl e \<Rightarrow> Some e | Inr _ \<Rightarrow> None)"



definition empty_state :: material_state where
  "empty_state = \<lparr>ms_materials = [], ms_materialData = [], ms_partials = []\<rparr>"

subsection \<open>Placeholders\<close>




section \<open>Properties\<close>

subsection \<open>Objects\<close>

lemma map_of_assign1:
  "distinct (map fst source) \<Longrightarrow> map_of (assign1 target source) = map_of target ++ map_of source"
proof (induction source arbitrary: target)
  case Nil
  then show ?case by (simp add: assign1_def)
next
  case (Cons p source)
  obtain k v where p: "p = (k, v)" by (cases p)
  from Cons.prems p have k: "k \<notin> fst ` set source" and d: "distinct (map fst source)"
    by auto
  have "map_of (assign1 target (p # source)) = map_of (assign1 (AList.update k v target) source)"
    by (simp add: assign1_def p)
  also have "\<dots> = map_of (AList.update k v target) ++ map_of source"
    using Cons.IH [OF d] .
  also have "\<dots> = (map_of target)(k \<mapsto> v) ++ map_of source"
    by (simp add: update_conv')
  also have "\<dots> = map_of target ++ map_of (p # source)"
  proof (rule ext)
    fix x
    have "map_of source k = None"
      using k by (simp add: map_of_eq_None_iff)
    then show "((map_of target)(k \<mapsto> v) ++ map_of source) x = (map_of target ++ map_of (p # source)) x"
      by (simp add: map_add_def p split: option.splits)
  qed
  finally show ?case .
qed

lemma map_of_lift_obj: "map_of (lift_obj obj) k = map_option Val (map_of obj k)"
  by (induction obj) (auto simp: lift_obj_def)

lemma distinct_lift_obj: "map fst (lift_obj obj) = map fst obj"
  by (induction obj) (auto simp: lift_obj_def)

lemma map_of_assign1_lift:
  "distinct (map fst obj) \<Longrightarrow> map_of (assign1 t (lift_obj obj)) = map_of t ++ map_of (lift_obj obj)"
  using map_of_assign1 [of "lift_obj obj" t] by (simp only: distinct_lift_obj)

lemma map_of_materialData:
  "map_of (map (\<lambda>(k, d). (k, Val (JObj d))) md) k = map_option (\<lambda>d. Val (JObj d)) (map_of md k)"
  by (induction md) auto

lemma fst_materialData: "map fst (map (\<lambda>(k, d). (k, Val (JObj d))) md) = map fst md"
  by (induction md) auto

lemma map_of_assign1_materialData:
  "distinct (map fst md) \<Longrightarrow>
   map_of (assign1 t (map (\<lambda>(k, d). (k, Val (JObj d))) md)) =
   map_of t ++ map_of (map (\<lambda>(k, d). (k, Val (JObj d))) md)"
  using map_of_assign1 [of "map (\<lambda>(k, d). (k, Val (JObj d))) md" t]
  by (simp only: fst_materialData)

subsection \<open>handleError (C7)\<close>



subsection \<open>buildContext (C2)\<close>

lemma buildContext_lookup:
  assumes "distinct (map fst data)" and "distinct (map fst (a_data asm))"
    and "distinct (map fst (a_materialData asm))" and "distinct (map fst (o_buildData opts))"
    and "distinct (map fst (case hash of None \<Rightarrow> [] | Some h \<Rightarrow> h))"
  shows "map_of (buildContext opts asm data hash) k =
     (case map_of (case hash of None \<Rightarrow> [] | Some h \<Rightarrow> h) k of
        Some v \<Rightarrow> Some (Val v)
      | None \<Rightarrow>
          if k = o_keys_docs opts then Some (DocsTree (a_docs asm))
          else if k = o_keys_views opts then Some (ViewsTree (a_views asm))
          else if k = o_keys_materials opts then Some (MaterialsTree (a_materials asm))
          else (case map_of (o_buildData opts) k of
                  Some v \<Rightarrow> Some (Val v)
                | None \<Rightarrow>
                    (case map_of (a_materialData asm) k of
                       Some d \<Rightarrow> Some (Val (JObj d))
                     | None \<Rightarrow>
                         (case map_of (a_data asm) k of
                            Some v \<Rightarrow> Some (Val v)
                          | None \<Rightarrow> map_option Val (map_of data k)))))"
proof -
  let ?base = "assign [] [lift_obj data, lift_obj (a_data asm),
       map (\<lambda>(k, d). (k, Val (JObj d))) (a_materialData asm), lift_obj (o_buildData opts),
       [(o_keys_materials opts, MaterialsTree (a_materials asm))],
       [(o_keys_views opts, ViewsTree (a_views asm))],
       [(o_keys_docs opts, DocsTree (a_docs asm))]]"
  have base: "map_of ?base =
      map_of (lift_obj data) ++ map_of (lift_obj (a_data asm))
      ++ map_of (map (\<lambda>(k, d). (k, Val (JObj d))) (a_materialData asm))
      ++ map_of (lift_obj (o_buildData opts))
      ++ [o_keys_materials opts \<mapsto> MaterialsTree (a_materials asm)]
      ++ [o_keys_views opts \<mapsto> ViewsTree (a_views asm)]
      ++ [o_keys_docs opts \<mapsto> DocsTree (a_docs asm)]"
    using assms(1-4)
    by (simp add: assign_def map_of_assign1 map_of_assign1_lift map_of_assign1_materialData)
  have ctx: "map_of (buildContext opts asm data hash) =
      map_of ?base ++ map_of (lift_obj (case hash of None \<Rightarrow> [] | Some h \<Rightarrow> h))"
  proof (cases hash)
    case None
    then show ?thesis by (simp add: buildContext_def Let_def lift_obj_def)
  next
    case (Some h)
    then have "buildContext opts asm data hash = assign1 ?base (lift_obj h)"
      by (simp add: buildContext_def Let_def assign_def)
    then show ?thesis using assms(5) Some
      by (simp add: map_of_assign1_lift)
  qed
  show ?thesis
    unfolding ctx base
    by (simp add: map_add_def map_of_lift_obj map_of_materialData split: option.splits)
qed

text \<open>
  C2. For every page-data object and optional hash, a key of the context built by
  \<^verbatim>\<open>buildContext\<close> has the value of the last source that defines it, whole (nothing is merged
  below the top level), the sources being in this order: page data, global data files,
  namespaced material data, build data, the materials tree under the materials key, the views
  tree under the views key, the docs tree under the docs key, the hash. In particular, with
  global data \<^verbatim>\<open>{title: 'A'}\<close>, build data \<^verbatim>\<open>{title: 'B'}\<close> and page data \<^verbatim>\<open>{title: 'C'}\<close>
  (no hash, and none of the three tree keys being \<^verbatim>\<open>title\<close>) the context's title is B.
\<close>

theorem C2_buildContext_precedence:
  assumes "distinct (map fst data)" and "distinct (map fst (a_data asm))"
    and "distinct (map fst (a_materialData asm))" and "distinct (map fst (o_buildData opts))"
    and "distinct (map fst (case hash of None \<Rightarrow> [] | Some h \<Rightarrow> h))"
  shows "map_of (buildContext opts asm data hash) k =
     (case map_of (case hash of None \<Rightarrow> [] | Some h \<Rightarrow> h) k of
        Some v \<Rightarrow> Some (Val v)
      | None \<Rightarrow>
          if k = o_keys_docs opts then Some (DocsTree (a_docs asm))
          else if k = o_keys_views opts then Some (ViewsTree (a_views asm))
          else if k = o_keys_materials opts then Some (MaterialsTree (a_materials asm))
          else (case map_of (o_buildData opts) k of
                  Some v \<Rightarrow> Some (Val v)
                | None \<Rightarrow>
                    (case map_of (a_materialData asm) k of
                       Some d \<Rightarrow> Some (Val (JObj d))
                     | None \<Rightarrow>
                         (case map_of (a_data asm) k of
                            Some v \<Rightarrow> Some (Val v)
                          | None \<Rightarrow> map_option Val (map_of data k)))))
     \<and> (map_of (a_data asm) ''title'' = Some (JStr ''A'')
          \<and> map_of (o_buildData opts) ''title'' = Some (JStr ''B'')
          \<and> map_of data ''title'' = Some (JStr ''C'')
          \<and> hash = None
          \<and> ''title'' \<notin> {o_keys_materials opts, o_keys_views opts, o_keys_docs opts}
        \<longrightarrow> map_of (buildContext opts asm data hash) ''title'' = Some (Val (JStr ''B'')))"
proof (rule conjI)
  show "map_of (buildContext opts asm data hash) k =
     (case map_of (case hash of None \<Rightarrow> [] | Some h \<Rightarrow> h) k of
        Some v \<Rightarrow> Some (Val v)
      | None \<Rightarrow>
          if k = o_keys_docs opts then Some (DocsTree (a_docs asm))
          else if k = o_keys_views opts then Some (ViewsTree (a_views asm))
          else if k = o_keys_materials opts then Some (MaterialsTree (a_materials asm))
          else (case map_of (o_buildData opts) k of
                  Some v \<Rightarrow> Some (Val v)
                | None \<Rightarrow>
                    (case map_of (a_materialData asm) k of
                       Some d \<Rightarrow> Some (Val (JObj d))
                     | None \<Rightarrow>
                         (case map_of (a_data asm) k of
                            Some v \<Rightarrow> Some (Val v)
                          | None \<Rightarrow> map_option Val (map_of data k)))))"
    by (rule buildContext_lookup [OF assms])
next
  show "map_of (a_data asm) ''title'' = Some (JStr ''A'')
          \<and> map_of (o_buildData opts) ''title'' = Some (JStr ''B'')
          \<and> map_of data ''title'' = Some (JStr ''C'')
          \<and> hash = None
          \<and> ''title'' \<notin> {o_keys_materials opts, o_keys_views opts, o_keys_docs opts}
        \<longrightarrow> map_of (buildContext opts asm data hash) ''title'' = Some (Val (JStr ''B''))"
    using buildContext_lookup [OF assms, of "''title''"] by auto
qed

text \<open>
  The witness runs the example of the specification with the default keys, and a nested
  object \<^verbatim>\<open>a\<close> that the build data replace whole.
\<close>

theorem C2_buildContext_precedence_witness:
  "map_of (buildContext
             (defaults\<lparr>o_buildData := [(''title'', JStr ''B''), (''a'', JObj [(''y'', JNum 2)])]\<rparr>)
             \<lparr>a_layouts = [], a_data = [(''title'', JStr ''A'')], a_materials = [],
              a_materialData = [], a_views = [], a_docs = []\<rparr>
             [(''title'', JStr ''C''), (''a'', JObj [(''x'', JNum 1)])] None) ''title''
     = Some (Val (JStr ''B''))
   \<and> map_of (buildContext
             (defaults\<lparr>o_buildData := [(''title'', JStr ''B''), (''a'', JObj [(''y'', JNum 2)])]\<rparr>)
             \<lparr>a_layouts = [], a_data = [(''title'', JStr ''A'')], a_materials = [],
              a_materialData = [], a_views = [], a_docs = []\<rparr>
             [(''title'', JStr ''C''), (''a'', JObj [(''x'', JNum 1)])] None) ''a''
     = Some (Val (JObj [(''y'', JNum 2)]))"
  using
    C2_buildContext_precedence [of "[(''title'', JStr ''C''), (''a'', JObj [(''x'', JNum 1)])]"
      "\<lparr>a_layouts = [], a_data = [(''title'', JStr ''A'')], a_materials = [],
              a_materialData = [], a_views = [], a_docs = []\<rparr>"
      "defaults\<lparr>o_buildData := [(''title'', JStr ''B''), (''a'', JObj [(''y'', JNum 2)])]\<rparr>"
      None "''title''"]
    C2_buildContext_precedence [of "[(''title'', JStr ''C''), (''a'', JObj [(''x'', JNum 1)])]"
      "\<lparr>a_layouts = [], a_data = [(''title'', JStr ''A'')], a_materials = [],
              a_materialData = [], a_views = [], a_docs = []\<rparr>"
      "defaults\<lparr>o_buildData := [(''title'', JStr ''B''), (''a'', JObj [(''y'', JNum 2)])]\<rparr>"
      None "''a''"]
  by (simp add: defaults_def)

subsection \<open>The output path (C3)\<close>

lemma expand_no_dollar: "CHR ''$'' \<notin> set repl \<Longrightarrow> expand m pre post repl = repl"
  by (induction m pre post repl rule: expand.induct) auto

lemma dot_not_lower_alnum: "\<not> is_lower_alnum CHR ''.''"
  by (simp add: is_lower_alnum_def is_digit_def is_lower_def)

lemma ext_match_inner: "\<not> ext_match (c # stem @ CHR ''.'' # e)"
  by (auto simp: ext_match_def dot_not_lower_alnum)

lemma replace_extension_at_match:
  "e \<noteq> [] \<Longrightarrow> list_all is_lower_alnum e \<Longrightarrow>
   replace_extension_at repl pre (stem @ CHR ''.'' # e) =
     pre @ stem @ expand (CHR ''.'' # e) (pre @ stem) [] repl"
proof (induction stem arbitrary: pre)
  case Nil
  then show ?case by (simp add: ext_match_def)
next
  case (Cons c stem)
  then show ?case
    using ext_match_inner [of c stem e] by simp
qed

lemma replace_extension_at_nomatch:
  "\<not> (\<exists>stem e. s = stem @ CHR ''.'' # e \<and> e \<noteq> [] \<and> list_all is_lower_alnum e) \<Longrightarrow>
   replace_extension_at repl pre s = pre @ s"
proof (induction s arbitrary: pre)
  case Nil
  then show ?case by simp
next
  case (Cons c r)
  have nm: "\<not> ext_match (c # r)"
  proof
    assume "ext_match (c # r)"
    then have "c # r = [] @ CHR ''.'' # r \<and> r \<noteq> [] \<and> list_all is_lower_alnum r"
      by (simp add: ext_match_def)
    with Cons.prems show False by blast
  qed
  have "\<not> (\<exists>stem e. r = stem @ CHR ''.'' # e \<and> e \<noteq> [] \<and> list_all is_lower_alnum e)"
  proof
    assume "\<exists>stem e. r = stem @ CHR ''.'' # e \<and> e \<noteq> [] \<and> list_all is_lower_alnum e"
    then obtain stem e where "r = stem @ CHR ''.'' # e" "e \<noteq> []" "list_all is_lower_alnum e"
      by blast
    then have "c # r = (c # stem) @ CHR ''.'' # e \<and> e \<noteq> [] \<and> list_all is_lower_alnum e"
      by simp
    with Cons.prems show False by blast
  qed
  from Cons.IH [OF this] nm show ?case by simp
qed

lemma replace_extension_match:
  "e \<noteq> [] \<Longrightarrow> list_all is_lower_alnum e \<Longrightarrow> CHR ''$'' \<notin> set repl \<Longrightarrow>
   replace_extension repl (stem @ CHR ''.'' # e) = stem @ repl"
  by (simp add: replace_extension_def replace_extension_at_match expand_no_dollar)

lemma replace_extension_nomatch:
  "\<not> (\<exists>stem e. s = stem @ CHR ''.'' # e \<and> e \<noteq> [] \<and> list_all is_lower_alnum e) \<Longrightarrow>
   replace_extension repl s = s"
  using replace_extension_at_nomatch [of s repl "[]"] by (simp add: replace_extension_def)

text \<open>
  C3, as the specification states it, fails: the extension is not rewritten regardless of the
  source extension. The pattern \<^verbatim>\<open>/\.[0-9a-z]+$/\<close> has no match in a path that ends in
  \<^verbatim>\<open>.HTML\<close>, and the view \<^verbatim>\<open>views/forms/input.HTML\<close> is written to
  \<^verbatim>\<open>dist/forms/input.HTML\<close> although the configured extension is \<^verbatim>\<open>.htm\<close>.
\<close>

theorem C3_extension_counterexample:
  "outputPath (defaults\<lparr>o_extension := ''.htm''\<rparr>) ''views/forms/input.HTML'' []
     = Inr ''dist/forms/input.HTML''
   \<and> outputPath (defaults\<lparr>o_extension := ''.htm''\<rparr>) ''views/forms/input.HTML'' []
     \<noteq> Inr ''dist/forms/input.htm''"
  by code_simp

text \<open>
  C3 (amended). For every view file whose front-matter \<^verbatim>\<open>dest\<close> is a string or falsy, the output
  path is resolved in this order, each applicable step overriding the previous: the default
  \<^verbatim>\<open><destRoot>/<collectionName>/<basename>\<close>; then a non-empty front-matter \<^verbatim>\<open>dest\<close> replaces
  the path; then a non-empty destination-map entry for the view's collectionName overrides
  again as \<^verbatim>\<open><mapEntry>/<basename>\<close> (each normalised); last, when the path ends in a dot
  followed by one or more characters of \<^verbatim>\<open>[0-9a-z]\<close>, that suffix is replaced by the
  configured extension (taken literally when it contains no dollar sign), and a path with no
  such suffix is left as it is. So \<^verbatim>\<open>views/forms/input.html\<close> with destRoot \<^verbatim>\<open>dist\<close> and
  extension \<^verbatim>\<open>.htm\<close> resolves to \<^verbatim>\<open>dist/forms/input.htm\<close>, with destMap
  \<^verbatim>\<open>{forms: 'out/f'}\<close> to \<^verbatim>\<open>out/f/input.htm\<close>, and with front-matter dest
  \<^verbatim>\<open>custom/x.html\<close> and no destMap entry to \<^verbatim>\<open>custom/x.htm\<close>.
\<close>

theorem C3_outputPath_resolution:
  assumes "get_prop data ''dest'' = JStr d \<or> (\<not> truthy (get_prop data ''dest'') \<and> d = [])"
    and "base =
      (let c = collection_of opts file;
           b = path_basename file;
           m = (case map_of (o_destMap opts) c of Some m \<Rightarrow> m | None \<Rightarrow> [])
       in if m \<noteq> [] then path_normalize (path_join [m, b])
          else if d \<noteq> [] then path_normalize d
          else path_normalize (path_join [o_dest opts, c, b]))"
  shows
    "outputPath opts file data = Inr (replace_extension (o_extension opts) base)
     \<and> (base = stem @ CHR ''.'' # e \<and> e \<noteq> [] \<and> list_all is_lower_alnum e
          \<and> CHR ''$'' \<notin> set (o_extension opts)
        \<longrightarrow> outputPath opts file data = Inr (stem @ o_extension opts))
     \<and> (\<not> (\<exists>stem e. base = stem @ CHR ''.'' # e \<and> e \<noteq> [] \<and> list_all is_lower_alnum e)
        \<longrightarrow> outputPath opts file data = Inr base)
     \<and> outputPath (defaults\<lparr>o_extension := ''.htm''\<rparr>) ''views/forms/input.html'' []
         = Inr ''dist/forms/input.htm''
     \<and> outputPath (defaults\<lparr>o_extension := ''.htm'', o_destMap := [(''forms'', ''out/f'')]\<rparr>)
           ''views/forms/input.html'' []
         = Inr ''out/f/input.htm''
     \<and> outputPath (defaults\<lparr>o_extension := ''.htm''\<rparr>) ''views/forms/input.html''
           [(''dest'', JStr ''custom/x.html'')]
         = Inr ''custom/x.htm''"
proof -
  have out: "outputPath opts file data = Inr (replace_extension (o_extension opts) base)"
    using assms
    by (auto simp: outputPath_def Let_def split: option.splits)
  have match: "base = stem @ CHR ''.'' # e \<and> e \<noteq> [] \<and> list_all is_lower_alnum e
          \<and> CHR ''$'' \<notin> set (o_extension opts)
        \<longrightarrow> outputPath opts file data = Inr (stem @ o_extension opts)"
    using out by (simp add: replace_extension_match)
  have nomatch: "\<not> (\<exists>stem e. base = stem @ CHR ''.'' # e \<and> e \<noteq> [] \<and> list_all is_lower_alnum e)
        \<longrightarrow> outputPath opts file data = Inr base"
    using out replace_extension_nomatch [of base "o_extension opts"] by simp
  have e1: "outputPath (defaults\<lparr>o_extension := ''.htm''\<rparr>) ''views/forms/input.html'' []
         = Inr ''dist/forms/input.htm''"
    by code_simp
  have e2: "outputPath (defaults\<lparr>o_extension := ''.htm'', o_destMap := [(''forms'', ''out/f'')]\<rparr>)
           ''views/forms/input.html'' []
         = Inr ''out/f/input.htm''"
    by code_simp
  have e3: "outputPath (defaults\<lparr>o_extension := ''.htm''\<rparr>) ''views/forms/input.html''
           [(''dest'', JStr ''custom/x.html'')]
         = Inr ''custom/x.htm''"
    by code_simp
  from out match nomatch e1 e2 e3 show ?thesis by (intro conjI)
qed

text \<open>
  The witness: a view with a destination-map entry that overrides its front-matter
  \<^verbatim>\<open>dest\<close>, and the same view with an upper-case extension, which is kept.
\<close>

theorem C3_outputPath_resolution_witness:
  "outputPath (defaults\<lparr>o_destMap := [(''forms'', ''out/f'')], o_extension := ''.htm''\<rparr>)
      ''views/forms/input.html'' [(''dest'', JStr ''custom/x.html'')]
     = Inr ''out/f/input.htm''
   \<and> outputPath (defaults\<lparr>o_destMap := [(''forms'', ''out/f'')], o_extension := ''.htm''\<rparr>)
      ''views/forms/input.HTML'' []
     = Inr ''out/f/input.HTML''"
proof -
  let ?opts = "defaults\<lparr>o_destMap := [(''forms'', ''out/f'')], o_extension := ''.htm''\<rparr>"
  have g1: "get_prop [(''dest'', JStr ''custom/x.html'')] ''dest'' = JStr ''custom/x.html''
        \<or> (\<not> truthy (get_prop [(''dest'', JStr ''custom/x.html'')] ''dest'') \<and> ''custom/x.html'' = [])"
    by (simp add: get_prop_def)
  have b1: "''out/f/input.html'' =
      (let c = collection_of ?opts ''views/forms/input.html'';
           b = path_basename ''views/forms/input.html'';
           m = (case map_of (o_destMap ?opts) c of Some m \<Rightarrow> m | None \<Rightarrow> [])
       in if m \<noteq> [] then path_normalize (path_join [m, b])
          else if ''custom/x.html'' \<noteq> [] then path_normalize ''custom/x.html''
          else path_normalize (path_join [o_dest ?opts, c, b]))"
    by code_simp
  have s1: "''out/f/input.html'' = ''out/f/input'' @ CHR ''.'' # ''html'' \<and> ''html'' \<noteq> []
      \<and> list_all is_lower_alnum ''html'' \<and> CHR ''$'' \<notin> set (o_extension ?opts)"
    by code_simp
  have r1: "outputPath ?opts ''views/forms/input.html'' [(''dest'', JStr ''custom/x.html'')]
      = Inr (''out/f/input'' @ o_extension ?opts)"
    using C3_outputPath_resolution [OF g1 b1, of "''out/f/input''" "''html''"] s1 by blast
  have g2: "get_prop [] ''dest'' = JStr [] \<or> (\<not> truthy (get_prop [] ''dest'') \<and> ([]::string) = [])"
    by (simp add: get_prop_def)
  have b2: "''out/f/input.HTML'' =
      (let c = collection_of ?opts ''views/forms/input.HTML'';
           b = path_basename ''views/forms/input.HTML'';
           m = (case map_of (o_destMap ?opts) c of Some m \<Rightarrow> m | None \<Rightarrow> [])
       in if m \<noteq> [] then path_normalize (path_join [m, b])
          else if ([]::string) \<noteq> [] then path_normalize []
          else path_normalize (path_join [o_dest ?opts, c, b]))"
    by code_simp
  have s2: "\<not> (\<exists>stem e. ''out/f/input.HTML'' = stem @ CHR ''.'' # e \<and> e \<noteq> []
                    \<and> list_all is_lower_alnum e)"
  proof
    assume "\<exists>stem e. ''out/f/input.HTML'' = stem @ CHR ''.'' # e \<and> e \<noteq> [] \<and> list_all is_lower_alnum e"
    then obtain stem e where eq: "''out/f/input.HTML'' = stem @ CHR ''.'' # e"
      and ne: "e \<noteq> []" and la: "list_all is_lower_alnum e"
      by blast
    from eq have "last (''out/f/input.HTML'') = last (stem @ CHR ''.'' # e)" by simp
    with ne have "last e = CHR ''L''" by simp
    moreover from ne la have "is_lower_alnum (last e)"
      by (simp add: list_all_iff)
    ultimately show False
      by (simp add: is_lower_alnum_def is_digit_def is_lower_def)
  qed
  have r2: "outputPath ?opts ''views/forms/input.HTML'' [] = Inr ''out/f/input.HTML''"
    using C3_outputPath_resolution [OF g2 b2] s2 by blast
  from r1 r2 show ?thesis by (simp add: defaults_def)
qed

subsection \<open>The collection of a view and baseurl (C8)\<close>

lemma page_data_lookup:
  "map_of (page_data opts file data) k =
     (if collection_of opts file \<noteq> [] \<and> k = ''baseurl'' then Some (JStr ''..'') else map_of data k)"
  by (simp add: page_data_def update_conv')

lemma assemble_file_context:
  "assemble_file opts asm render fm =
   assemble_file opts asm
     (\<lambda>s c. if c = page_context opts asm (fst fm) (fm_data (snd fm)) then render s c else Inl Unmodelled) fm"
  by (simp add: assemble_file_def Let_def split: jsval.splits option.splits sum.splits)

text \<open>
  C8, as the specification states it, fails in both directions, with the default options.
  The collection is decided by the name of the directory the view is in, compared with the
  views key (\<^verbatim>\<open>views\<close>), not by the views root. A view directly under a views root
  \<^verbatim>\<open>src/pages\<close> has the collection \<^verbatim>\<open>pages\<close> and gets \<^verbatim>\<open>baseurl\<close>; a view in
  \<^verbatim>\<open>src/views/admin/views\<close>, two levels below the views root \<^verbatim>\<open>src/views\<close>, has the empty
  collection and gets none.
\<close>

theorem C8_views_root_counterexample:
  "directly_under_root ''src/pages'' ''src/pages/index.html''
   \<and> collection_of defaults ''src/pages/index.html'' = ''pages''
   \<and> map_of (page_data defaults ''src/pages/index.html'' []) ''baseurl'' = Some (JStr ''..'')
   \<and> \<not> directly_under_root ''src/views'' ''src/views/admin/views/page.html''
   \<and> collection_of defaults ''src/views/admin/views/page.html'' = []
   \<and> map_of (page_data defaults ''src/views/admin/views/page.html'' []) ''baseurl'' = None"
  by code_simp

text \<open>
  C8 (amended). For every view file, the view's collectionName is the name of the directory the
  file is in, and it is empty if and only if that name equals the configured views key (or is
  itself empty); exactly when the collectionName is non-empty, \<^verbatim>\<open>baseurl: '..'\<close> is set in the
  view's page data, every other field being kept, and otherwise the page data are unchanged;
  the context handed to the template is built from these page data.
\<close>

theorem C8_collection_and_baseurl:
  "(collection_of opts file = [] \<longleftrightarrow> dir_name file = o_keys_views opts \<or> dir_name file = [])
   \<and> (collection_of opts file \<noteq> [] \<longrightarrow> collection_of opts file = dir_name file)
   \<and> map_of (page_data opts file data) k =
       (if collection_of opts file \<noteq> [] \<and> k = ''baseurl'' then Some (JStr ''..'') else map_of data k)
   \<and> (collection_of opts file = [] \<longrightarrow> page_data opts file data = data)
   \<and> page_context opts asm file data = buildContext opts asm (page_data opts file data) None
   \<and> assemble_file opts asm render (file, pm) =
       assemble_file opts asm
         (\<lambda>s c. if c = page_context opts asm file (fm_data pm) then render s c else Inl Unmodelled)
         (file, pm)"
proof -
  have a: "collection_of opts file = [] \<longleftrightarrow> dir_name file = o_keys_views opts \<or> dir_name file = []"
    by (auto simp: collection_of_def Let_def)
  have b: "collection_of opts file \<noteq> [] \<longrightarrow> collection_of opts file = dir_name file"
    by (auto simp: collection_of_def Let_def)
  have c: "collection_of opts file = [] \<longrightarrow> page_data opts file data = data"
    by (simp add: page_data_def)
  have d: "page_context opts asm file data = buildContext opts asm (page_data opts file data) None"
    by (simp add: page_context_def)
  from a b c d page_data_lookup [of opts "file" "data" k]
    assemble_file_context [of opts asm render "(file, pm)"]
  show ?thesis by simp
qed

theorem C8_collection_and_baseurl_witness:
  "collection_of defaults ''src/views/forms/input.html'' = ''forms''
   \<and> map_of (page_data defaults ''src/views/forms/input.html'' [(''title'', JStr ''Input'')]) ''baseurl''
       = Some (JStr ''..'')
   \<and> collection_of defaults ''src/views/index.html'' = []
   \<and> page_data defaults ''src/views/index.html'' [(''title'', JStr ''Home'')] = [(''title'', JStr ''Home'')]"
proof -
  have d1: "dir_name ''src/views/forms/input.html'' = ''forms''" by code_simp
  have d2: "dir_name ''src/views/index.html'' = ''views''" by code_simp
  have k: "o_keys_views defaults = ''views''" by (simp add: defaults_def)
  from C8_collection_and_baseurl [of defaults "''src/views/forms/input.html''"
      "[(''title'', JStr ''Input'')]" "''baseurl''"] d1 k
  have "collection_of defaults ''src/views/forms/input.html'' = ''forms''
     \<and> map_of (page_data defaults ''src/views/forms/input.html'' [(''title'', JStr ''Input'')]) ''baseurl''
       = Some (JStr ''..'')"
    by auto
  moreover
  from C8_collection_and_baseurl [of defaults "''src/views/index.html''"
      "[(''title'', JStr ''Home'')]"] d2 k
  have "collection_of defaults ''src/views/index.html'' = []
     \<and> page_data defaults ''src/views/index.html'' [(''title'', JStr ''Home'')] = [(''title'', JStr ''Home'')]"
    by auto
  ultimately show ?thesis by simp
qed

subsection \<open>parseViews and the views under the root (C9)\<close>











subsection \<open>The material helper (C6)\<close>












subsection \<open>The material helper and unknown names (C10)\<close>



subsection \<open>Namespacing (C1)\<close>






























subsection \<open>Sub-collections (C4)\<close>

text \<open>
  C4. A directory is a sub-collection when the name of its parent directory is among the names
  of the matched directories. The second loop of \<^verbatim>\<open>parseMaterials\<close> decides so; the first
  loop, which makes the stubs, passes the parent's name through \<^verbatim>\<open>getName\<close> first, which
  cuts an extension off it. For the material
  \<^verbatim>\<open>src/materials/01.components/02.buttons/primary.html\<close> the parent directory
  \<^verbatim>\<open>01.components\<close> is among the matched directories, the first loop looks for \<^verbatim>\<open>01\<close>
  and classifies the directory as no sub-collection, the second loop classifies it as a
  sub-collection, finds no stub for \<^verbatim>\<open>01.components\<close>, and \<^verbatim>\<open>parseMaterials\<close> throws a
  TypeError.
\<close>

theorem C4_stub_loop_misclassifies:
  "material_dirs
      (\<lambda>patterns. [''src/materials/01.components/'', ''src/materials/01.components/02.buttons/''])
      defaults
     = [Some ''01.components'', Some ''02.buttons'']
   \<and> second_last (dir_segments ''src/materials/01.components/02.buttons/primary.html'')
     = Some ''01.components''
   \<and> stub_isSubCollection [Some ''01.components'', Some ''02.buttons'']
        ''src/materials/01.components/02.buttons/primary.html''
     = Inr False
   \<and> isSubCollection [Some ''01.components'', Some ''02.buttons'']
        ''src/materials/01.components/02.buttons/primary.html''
   \<and> thrown (parseMaterials defaults
        (\<lambda>patterns. [''src/materials/01.components/'', ''src/materials/01.components/02.buttons/''])
        (\<lambda>markdown. markdown) empty_state
        [(''src/materials/01.components/02.buttons/primary.html'',
          \<lparr>fm_data = [], fm_content = ''<b>go</b>''\<rparr>)])
     = Some TypeError"
  by code_simp

subsection \<open>The order of the materials (C5)\<close>







end
